theory Spec2Isabelle
  imports Main "HOL-Library.Word" "HOL-Library.List_Lexorder"
begin

section \<open>JavaScript values used by the client\<close>

text \<open>
  A JavaScript string is a sequence of 16-bit code units. The empty string is the only
  falsy string, which is what \<^verbatim>\<open>!s\<close> and \<^verbatim>\<open>s || t\<close> test.
\<close>

type_synonym jsstring = "16 word list"

definition js :: "string \<Rightarrow> jsstring" where
  "js s = map (\<lambda>c. of_nat (of_char c)) s"

text \<open>A thrown JavaScript value; the text is only a label.\<close>

datatype js_error = JsError string

text \<open>
  \<^verbatim>\<open>try { body } catch (error) { handler }\<close>: a computation that may throw is a
  value of \<open>js_error + 'a\<close>, \<open>Inl\<close> the thrown value.
\<close>

definition try_catch :: "js_error + 'a \<Rightarrow> (js_error \<Rightarrow> js_error + 'a) \<Rightarrow> js_error + 'a" where
  "try_catch body handler = (case body of Inl error \<Rightarrow> handler error | Inr v \<Rightarrow> Inr v)"

text \<open>\<^verbatim>\<open>a || b\<close> on strings.\<close>

definition js_or :: "jsstring \<Rightarrow> jsstring \<Rightarrow> jsstring" where
  "js_or a b = (if a = [] then b else a)"

text \<open>
  \<^verbatim>\<open>String.prototype.trim\<close> strips the code units of ECMAScript's WhiteSpace and
  LineTerminator productions from both ends.
\<close>

definition isWhiteSpace :: "16 word \<Rightarrow> bool" where
  "isWhiteSpace c \<longleftrightarrow>
     c \<in> {0x0009, 0x000A, 0x000B, 0x000C, 0x000D, 0x0020, 0x00A0, 0x1680,
          0x2028, 0x2029, 0x202F, 0x205F, 0x3000, 0xFEFF}
     \<or> (0x2000 \<le> c \<and> c \<le> 0x200A)"

definition trim :: "jsstring \<Rightarrow> jsstring" where
  "trim s = rev (dropWhile isWhiteSpace (rev (dropWhile isWhiteSpace s)))"

section \<open>The encryption helper\<close>

text \<open>
  The cipher is the third-party library crypto-js, which is outside the repository, so the
  helper takes it as a parameter. \<open>AES_encrypt lib r message key\<close> is
  \<^verbatim>\<open>CryptoJS.AES.encrypt(message, key).toString()\<close>, where \<open>r\<close> is the randomness
  the library draws for the salt; \<open>AES_decrypt lib ciphertext key\<close> is
  \<^verbatim>\<open>CryptoJS.AES.decrypt(ciphertext, key).toString(CryptoJS.enc.Utf8)\<close>. Either
  may throw. The \<^verbatim>\<open>console.error\<close> calls of the handlers write to the developer
  console only and are not part of the model.
\<close>

record 'r cryptojs =
  AES_encrypt :: "'r \<Rightarrow> jsstring \<Rightarrow> jsstring \<Rightarrow> js_error + jsstring"
  AES_decrypt :: "jsstring \<Rightarrow> jsstring \<Rightarrow> js_error + jsstring"

definition ENCRYPTION_KEY :: jsstring where
  "ENCRYPTION_KEY = js ''chatvibe-e2e-encryption-key-2024''"

definition encryptMessage :: "'r cryptojs \<Rightarrow> 'r \<Rightarrow> jsstring \<Rightarrow> js_error + jsstring" where
  "encryptMessage lib r message =
     try_catch
       (case AES_encrypt lib r message ENCRYPTION_KEY of
          Inl thrown \<Rightarrow> Inl thrown
        | Inr encrypted \<Rightarrow> Inr encrypted)
       (\<lambda>error. Inr message)"

definition decryptMessage :: "'r cryptojs \<Rightarrow> jsstring \<Rightarrow> js_error + jsstring" where
  "decryptMessage lib encryptedMessage =
     try_catch
       (case AES_decrypt lib encryptedMessage ENCRYPTION_KEY of
          Inl thrown \<Rightarrow> Inl thrown
        | Inr decrypted \<Rightarrow> Inr (js_or decrypted encryptedMessage))
       (\<lambda>error. Inr encryptedMessage)"

subsection \<open>A small cipher for closed instances\<close>

text \<open>
  The theorems below hold for every library. To exhibit them at concrete inputs a library
  value is needed; \<open>toy_cryptojs\<close> is a keyed shift cipher with the shape the claims
  depend on: encryption throws on a surrogate code unit (crypto-js encodes the message as
  UTF-8 first), the ciphertext starts with a fixed header followed by the salt, and
  decryption throws on text without the header. It stands for no part of the repository.
\<close>

definition toy_header :: jsstring where
  "toy_header = js ''U2FsdGVkX1''"

definition toy_shift :: "16 word \<Rightarrow> jsstring \<Rightarrow> 16 word" where
  "toy_shift r key = r + sum_list key"

definition toy_encrypt :: "16 word \<Rightarrow> jsstring \<Rightarrow> jsstring \<Rightarrow> js_error + jsstring" where
  "toy_encrypt r message key =
     (if \<exists>c \<in> set message. 0xD800 \<le> c \<and> c \<le> 0xDFFF then Inl (JsError ''URI malformed'')
      else Inr (toy_header @ r # map (\<lambda>c. c + toy_shift r key) message))"

definition toy_decrypt :: "jsstring \<Rightarrow> jsstring \<Rightarrow> js_error + jsstring" where
  "toy_decrypt ciphertext key =
     (if take (length toy_header) ciphertext = toy_header \<and> length toy_header < length ciphertext
      then (let r = ciphertext ! length toy_header
            in Inr (map (\<lambda>c. c - toy_shift r key) (drop (Suc (length toy_header)) ciphertext)))
      else Inl (JsError ''Malformed UTF-8 data''))"

definition toy_cryptojs :: "16 word cryptojs" where
  "toy_cryptojs = \<lparr>AES_encrypt = toy_encrypt, AES_decrypt = toy_decrypt\<rparr>"

section \<open>The backend SDK as seen from the client\<close>

text \<open>
  The hosted backend is reached through its SDK only. Each call the client makes is recorded
  as an effect, in the order the handler makes it; what the backend answers is an argument
  of the handler. A handler runs to completion in the model: an \<^verbatim>\<open>await\<close> resumes
  with the answer given.
\<close>

datatype js_value = VStr jsstring | VBool bool

type_synonym row = "(string \<times> js_value) list"

datatype table = direct_messages | profiles | typing_status

datatype filter =
    FEq string jsstring
  | FNeq string jsstring
  | FAnd filter filter
  | FOr filter filter

text \<open>\<open>OrderBy column ascending\<close>.\<close>

datatype ordering = OrderBy string bool

text \<open>The table operations the SDK offers.\<close>

datatype db_request =
    Select table filter ordering
  | Insert table row
  | Update table row filter
  | Upsert table row
  | Delete table filter

datatype auth_request =
    SignUp jsstring jsstring jsstring jsstring
  | SignInWithPassword jsstring jsstring
  | UpdateUser jsstring
  | SignOut

text \<open>\<open>Toast title description variant\<close>.\<close>

datatype effect =
    Db db_request
  | Auth auth_request
  | PresenceTrack row
  | Toast jsstring jsstring "jsstring option"

text \<open>The calls that leave for the backend, and the toasts, of a list of effects.\<close>

fun sent :: "effect list \<Rightarrow> effect list" where
  "sent [] = []"
| "sent (Toast title description variant # effects) = sent effects"
| "sent (other # effects) = other # sent effects"

fun toasts :: "effect list \<Rightarrow> effect list" where
  "toasts [] = []"
| "toasts (Toast title description variant # effects) =
     Toast title description variant # toasts effects"
| "toasts (other # effects) = toasts effects"

text \<open>
  The answer to an awaited SDK call: the promise rejects (\<open>Inl\<close>), or resolves to an
  object whose \<^verbatim>\<open>error\<close> field is null or an error.
\<close>

type_synonym response = "js_error + js_error option"

section \<open>ChatLayout: presence and status\<close>

definition updateUserStatus :: "jsstring \<Rightarrow> jsstring \<Rightarrow> jsstring \<Rightarrow> effect list" where
  "updateUserStatus uid now status =
     [Db (Update profiles [(''status'', VStr status), (''last_seen'', VStr now)]
            (FEq ''user_id'' uid))]"

text \<open>
  The mount effect of ChatLayout and the listeners it installs. \<open>now\<close> is
  \<^verbatim>\<open>new Date().toISOString()\<close> at the time of the call.
\<close>

definition mount_effect :: "jsstring \<Rightarrow> jsstring \<Rightarrow> effect list" where
  "mount_effect uid now = updateUserStatus uid now (js ''online'')"

definition presence_subscribe_callback :: "jsstring \<Rightarrow> jsstring \<Rightarrow> jsstring \<Rightarrow> effect list" where
  "presence_subscribe_callback uid now status =
     (if status = js ''SUBSCRIBED''
      then [PresenceTrack [(''user_id'', VStr uid), (''online_at'', VStr now),
                           (''status'', VStr (js ''online''))]]
      else [])"

definition handleBeforeUnload :: "jsstring \<Rightarrow> jsstring \<Rightarrow> effect list" where
  "handleBeforeUnload uid now = updateUserStatus uid now (js ''offline'')"

definition handleVisibilityChange :: "jsstring \<Rightarrow> jsstring \<Rightarrow> bool \<Rightarrow> effect list" where
  "handleVisibilityChange uid now document_hidden =
     (if document_hidden then updateUserStatus uid now (js ''away'')
      else updateUserStatus uid now (js ''online''))"

definition mount_cleanup :: "jsstring \<Rightarrow> jsstring \<Rightarrow> effect list" where
  "mount_cleanup uid now = updateUserStatus uid now (js ''offline'')"

section \<open>ChatWindow\<close>

record Message =
  id_msg :: jsstring
  sender_id :: jsstring
  receiver_id :: jsstring
  content :: jsstring
  created_at :: jsstring

text \<open>The two fields of the props that the handlers read.\<close>

record props =
  currentUser_id :: jsstring
  selectedProfile_user_id :: jsstring

text \<open>
  A pending \<^verbatim>\<open>setTimeout\<close>: its delay in milliseconds and the two variables its
  callback reads. Both are constants of the render in which \<open>handleInputChange\<close> was
  created: \<open>value\<close> is the handler's argument, \<open>newMessage\<close> is the state of that
  render, that is, the state before the change.
\<close>

record timeout =
  delay :: nat
  value_captured :: jsstring
  newMessage_captured :: jsstring

text \<open>
  The four state variables of the component, and the timeouts it has scheduled and that
  have not fired yet (the browser's timer queue; nothing in the component removes one).
  \<open>isTyping\<close> starts as \<open>false\<close> and then holds whatever the typing subscription hands
  to \<^verbatim>\<open>setIsTyping\<close>: a boolean, or \<open>None\<close> for a value that is none (the
  \<^verbatim>\<open>is_typing\<close> of a row that has no such field is \<^verbatim>\<open>undefined\<close>).
\<close>

record ChatWindow =
  messages :: "Message list"
  newMessage :: jsstring
  loading :: bool
  isTyping :: "bool option"
  timeouts :: "timeout list"

definition conversation_filter :: "props \<Rightarrow> filter" where
  "conversation_filter p =
     FOr (FAnd (FEq ''sender_id'' (currentUser_id p)) (FEq ''receiver_id'' (selectedProfile_user_id p)))
         (FAnd (FEq ''sender_id'' (selectedProfile_user_id p)) (FEq ''receiver_id'' (currentUser_id p)))"

definition destructive_toast :: "jsstring \<Rightarrow> effect" where
  "destructive_toast description = Toast (js ''Error'') description (Some (js ''destructive''))"

text \<open>
  The callback of the subscription to inserts into \<open>direct_messages\<close>;
  \<^verbatim>\<open>prev.find\<close> returns the message found, an object, which is truthy.
\<close>

definition message_subscription_callback :: "Message \<Rightarrow> ChatWindow \<Rightarrow> ChatWindow" where
  "message_subscription_callback payload_new st =
     st\<lparr>messages :=
          (let prev = messages st in
           case find (\<lambda>msg. id_msg msg = id_msg payload_new) prev of
             Some exists \<Rightarrow> prev
           | None \<Rightarrow> prev @ [payload_new])\<rparr>"

text \<open>
  The callback of the subscription to \<open>typing_status\<close>. The payload is \<open>None\<close> when
  \<^verbatim>\<open>payload.new\<close> is falsy; otherwise it is the \<^verbatim>\<open>is_typing\<close> of the new row,
  itself \<open>None\<close> when the row carries no boolean there.
\<close>

definition typing_subscription_callback :: "bool option option \<Rightarrow> ChatWindow \<Rightarrow> ChatWindow" where
  "typing_subscription_callback payload_new st =
     (case payload_new of None \<Rightarrow> st | Some is_typing \<Rightarrow> st\<lparr>isTyping := is_typing\<rparr>)"

text \<open>
  \<open>fetchMessages\<close>: the answer carries \<^verbatim>\<open>data\<close> (null or the rows) and
  \<^verbatim>\<open>error\<close>.
\<close>

definition fetchMessages ::
  "props \<Rightarrow> js_error + (Message list option \<times> js_error option) \<Rightarrow> ChatWindow
     \<Rightarrow> ChatWindow \<times> effect list" where
  "fetchMessages p answer st =
     (let request = Db (Select direct_messages (conversation_filter p) (OrderBy ''created_at'' True));
          caught = (st, [request, destructive_toast (js ''Failed to load messages'')])
      in case answer of
           Inl thrown \<Rightarrow> caught
         | Inr (data, error) \<Rightarrow>
             (case error of
                Some e \<Rightarrow> caught
              | None \<Rightarrow> (st\<lparr>messages := (case data of Some rows \<Rightarrow> rows | None \<Rightarrow> [])\<rparr>, [request])))"

definition sendMessage ::
  "'r cryptojs \<Rightarrow> 'r \<Rightarrow> props \<Rightarrow> response \<Rightarrow> ChatWindow \<Rightarrow> ChatWindow \<times> effect list" where
  "sendMessage lib r p answer st =
     (if trim (newMessage st) = [] then (st, [])
      else
        let caught = destructive_toast (js ''Failed to send message'');
            st1 = st\<lparr>loading := True\<rparr>
        in case encryptMessage lib r (trim (newMessage st)) of
             Inl thrown \<Rightarrow> (st1\<lparr>loading := False\<rparr>, [caught])
           | Inr encryptedContent \<Rightarrow>
               (let request = Db (Insert direct_messages
                                    [(''sender_id'', VStr (currentUser_id p)),
                                     (''receiver_id'', VStr (selectedProfile_user_id p)),
                                     (''content'', VStr encryptedContent)])
                in case answer of
                     Inl thrown \<Rightarrow> (st1\<lparr>loading := False\<rparr>, [request, caught])
                   | Inr (Some error) \<Rightarrow> (st1\<lparr>loading := False\<rparr>, [request, caught])
                   | Inr None \<Rightarrow> (st1\<lparr>newMessage := [], loading := False\<rparr>, [request])))"

definition updateTypingStatus :: "props \<Rightarrow> bool \<Rightarrow> effect list" where
  "updateTypingStatus p typing =
     [Db (Upsert typing_status
            [(''user_id'', VStr (currentUser_id p)),
             (''conversation_with'', VStr (selectedProfile_user_id p)),
             (''is_typing'', VBool typing)])]"

text \<open>
  \<open>handleKeyPress\<close> does not await \<open>sendMessage\<close>: the insert of \<open>sendMessage\<close> leaves
  first, the upsert of \<open>updateTypingStatus\<close> second, and the toast of a failed send is
  shown once the answer to the insert is in.
\<close>

definition handleKeyPress ::
  "'r cryptojs \<Rightarrow> 'r \<Rightarrow> props \<Rightarrow> jsstring \<Rightarrow> bool \<Rightarrow> response \<Rightarrow> ChatWindow
     \<Rightarrow> ChatWindow \<times> effect list" where
  "handleKeyPress lib r p key shiftKey answer st =
     (if key = js ''Enter'' \<and> \<not> shiftKey
      then (let (st', effects) = sendMessage lib r p answer st
            in (st', sent effects @ updateTypingStatus p False @ toasts effects))
      else (st, []))"

definition handleInputChange :: "props \<Rightarrow> jsstring \<Rightarrow> ChatWindow \<Rightarrow> ChatWindow \<times> effect list" where
  "handleInputChange p v st =
     (st\<lparr>newMessage := v,
         timeouts := timeouts st @
           [\<lparr>delay = 3000, value_captured = v, newMessage_captured = newMessage st\<rparr>]\<rparr>,
      updateTypingStatus p (0 < length v))"

text \<open>The function handed to \<^verbatim>\<open>setTimeout\<close>, run when the timeout fires.\<close>

definition timeout_callback :: "props \<Rightarrow> timeout \<Rightarrow> effect list" where
  "timeout_callback p t =
     (if value_captured t = newMessage_captured t then updateTypingStatus p False else [])"

text \<open>The \<open>i\<close>-th pending timeout fires: it leaves the queue and its callback runs.\<close>

definition timeout_fires :: "props \<Rightarrow> nat \<Rightarrow> ChatWindow \<Rightarrow> ChatWindow \<times> effect list" where
  "timeout_fires p i st =
     (if i < length (timeouts st)
      then (st\<lparr>timeouts := take i (timeouts st) @ drop (Suc i) (timeouts st)\<rparr>,
            timeout_callback p (timeouts st ! i))
      else (st, []))"

text \<open>What the message list renders: the text of each bubble.\<close>

definition render_messages :: "'r cryptojs \<Rightarrow> ChatWindow \<Rightarrow> (js_error + jsstring) list" where
  "render_messages lib st = map (\<lambda>message. decryptMessage lib (content message)) (messages st)"

section \<open>What the backend answers to a select\<close>

text \<open>
  The backend is outside the repository; its answers are arguments of the handlers. What
  a select on \<open>direct_messages\<close> asks for is fixed by the query language of the SDK: the
  stored rows that satisfy the filter, in the order of the column named, ascending or
  descending. \<open>key col\<close> places a value of column \<open>col\<close> in the order the backend keeps
  on that column; for \<open>created_at\<close> it is the instant that the timestamp denotes.
\<close>

fun column :: "string \<Rightarrow> (Message \<Rightarrow> jsstring) option" where
  "column col =
     (if col = ''id'' then Some id_msg
      else if col = ''sender_id'' then Some sender_id
      else if col = ''receiver_id'' then Some receiver_id
      else if col = ''content'' then Some content
      else if col = ''created_at'' then Some created_at
      else None)"

fun satisfies :: "filter \<Rightarrow> Message \<Rightarrow> bool" where
  "satisfies (FEq col v) m = (case column col of Some get \<Rightarrow> get m = v | None \<Rightarrow> False)"
| "satisfies (FNeq col v) m = (case column col of Some get \<Rightarrow> get m \<noteq> v | None \<Rightarrow> False)"
| "satisfies (FAnd f g) m = (satisfies f m \<and> satisfies g m)"
| "satisfies (FOr f g) m = (satisfies f m \<or> satisfies g m)"

fun backend_select ::
  "(string \<Rightarrow> jsstring \<Rightarrow> 'k::linorder) \<Rightarrow> Message list \<Rightarrow> db_request
     \<Rightarrow> js_error + (Message list option \<times> js_error option)" where
  "backend_select key stored (Select direct_messages f (OrderBy col ascending)) =
     (case column col of
        None \<Rightarrow> Inr (None, Some (JsError ''column does not exist''))
      | Some get \<Rightarrow>
          (let rows = sort_key (\<lambda>m. key col (get m)) (filter (satisfies f) stored)
           in Inr (Some (if ascending then rows else rev rows), None)))"
| "backend_select key stored other = Inr (None, Some (JsError ''not a select on direct_messages''))"

section \<open>ChatSidebar, SettingsModal and AuthForm\<close>

text \<open>
  Of these three components the model keeps what they send to the backend and the toasts
  they show; their form fields are arguments of the handlers.
\<close>

definition fetchProfiles :: "jsstring \<Rightarrow> response \<Rightarrow> effect list" where
  "fetchProfiles uid answer =
     (let request = Db (Select profiles (FNeq ''user_id'' uid) (OrderBy ''last_seen'' False))
      in case answer of
           Inr None \<Rightarrow> [request]
         | _ \<Rightarrow> [request, destructive_toast (js ''Failed to load contacts'')])"

definition ChatSidebar_handleSignOut :: "effect list" where
  "ChatSidebar_handleSignOut = [Auth SignOut]"

definition handleSaveProfile ::
  "jsstring \<Rightarrow> jsstring \<Rightarrow> jsstring \<Rightarrow> response \<Rightarrow> response \<Rightarrow> effect list" where
  "handleSaveProfile uid displayName bio profile_answer auth_answer =
     (let profile_request =
            Db (Update profiles [(''display_name'', VStr displayName), (''bio'', VStr bio)]
                  (FEq ''user_id'' uid));
          auth_request = Auth (UpdateUser displayName);
          caught = destructive_toast (js ''Failed to update profile'')
      in case profile_answer of
           Inr None \<Rightarrow>
             (case auth_answer of
                Inr None \<Rightarrow>
                  [profile_request, auth_request,
                   Toast (js ''Profile Updated! '' @ [0x00E2, 0x0153, 0x00A8])
                     (js ''Your profile has been saved successfully.'') None]
              | _ \<Rightarrow> [profile_request, auth_request, caught])
         | _ \<Rightarrow> [profile_request, caught])"

definition SettingsModal_handleSignOut :: "effect list" where
  "SettingsModal_handleSignOut = [Auth SignOut]"

definition handleSignUp ::
  "jsstring \<Rightarrow> jsstring \<Rightarrow> jsstring \<Rightarrow> jsstring \<Rightarrow> response \<Rightarrow> effect list" where
  "handleSignUp email password username displayName answer =
     (let request = Auth (SignUp email password username displayName)
      in case answer of
           Inl thrown \<Rightarrow> [request, destructive_toast (js ''An unexpected error occurred'')]
         | Inr (Some (JsError message)) \<Rightarrow> [request, destructive_toast (js message)]
         | Inr None \<Rightarrow>
             [request,
              Toast (js ''Welcome to ChatVibe! '' @ [0x00F0, 0x0178, 0x017D, 0x2030])
                (js ''Account created successfully. Please check your email to verify your account.'')
                None])"

definition handleSignIn :: "jsstring \<Rightarrow> jsstring \<Rightarrow> response \<Rightarrow> effect list" where
  "handleSignIn email password answer =
     (let request = Auth (SignInWithPassword email password)
      in case answer of
           Inl thrown \<Rightarrow> [request, destructive_toast (js ''An unexpected error occurred'')]
         | Inr (Some (JsError message)) \<Rightarrow> [request, destructive_toast (js message)]
         | Inr None \<Rightarrow>
             [request,
              Toast (js ''Welcome back! '' @ [0x00E2, 0x0153, 0x00A8])
                (js ''Successfully signed in to ChatVibe'') None])"

section \<open>The client as a whole\<close>

text \<open>
  Every handler and callback of the five source files that talks to the backend or changes
  the state of the conversation view, as one event type. An event carries what the handler
  reads from outside: the browser's input, the backend's answer, the library's randomness.
\<close>

datatype 'r client_event =
    LayoutMount
  | PresenceSubscribe jsstring
  | BeforeUnload
  | VisibilityChange bool
  | LayoutCleanup
  | WindowMount "js_error + (Message list option \<times> js_error option)"
  | MessageNotification Message
  | TypingNotification "bool option option"
  | SendClick 'r response
  | KeyPress 'r jsstring bool response
  | InputChange jsstring
  | TimeoutFires nat
  | SidebarFetch response
  | SidebarSignOut
  | SaveProfile jsstring jsstring response response
  | SettingsSignOut
  | AuthSignUp jsstring jsstring jsstring jsstring response
  | AuthSignIn jsstring jsstring response

fun client_step ::
  "'r cryptojs \<Rightarrow> props \<Rightarrow> jsstring \<Rightarrow> 'r client_event \<Rightarrow> ChatWindow \<Rightarrow> ChatWindow \<times> effect list" where
  "client_step lib p now LayoutMount st = (st, mount_effect (currentUser_id p) now)"
| "client_step lib p now (PresenceSubscribe status) st =
     (st, presence_subscribe_callback (currentUser_id p) now status)"
| "client_step lib p now BeforeUnload st = (st, handleBeforeUnload (currentUser_id p) now)"
| "client_step lib p now (VisibilityChange document_hidden) st =
     (st, handleVisibilityChange (currentUser_id p) now document_hidden)"
| "client_step lib p now LayoutCleanup st = (st, mount_cleanup (currentUser_id p) now)"
| "client_step lib p now (WindowMount answer) st = fetchMessages p answer st"
| "client_step lib p now (MessageNotification payload_new) st =
     (message_subscription_callback payload_new st, [])"
| "client_step lib p now (TypingNotification payload_new) st =
     (typing_subscription_callback payload_new st, [])"
| "client_step lib p now (SendClick r answer) st = sendMessage lib r p answer st"
| "client_step lib p now (KeyPress r key shiftKey answer) st =
     handleKeyPress lib r p key shiftKey answer st"
| "client_step lib p now (InputChange v) st = handleInputChange p v st"
| "client_step lib p now (TimeoutFires i) st = timeout_fires p i st"
| "client_step lib p now (SidebarFetch answer) st = (st, fetchProfiles (currentUser_id p) answer)"
| "client_step lib p now SidebarSignOut st = (st, ChatSidebar_handleSignOut)"
| "client_step lib p now (SaveProfile displayName bio profile_answer auth_answer) st =
     (st, handleSaveProfile (currentUser_id p) displayName bio profile_answer auth_answer)"
| "client_step lib p now SettingsSignOut st = (st, SettingsModal_handleSignOut)"
| "client_step lib p now (AuthSignUp email password username displayName answer) st =
     (st, handleSignUp email password username displayName answer)"
| "client_step lib p now (AuthSignIn email password answer) st =
     (st, handleSignIn email password answer)"

text \<open>The rows an event brings from the backend into the conversation view.\<close>

fun delivered :: "'r client_event \<Rightarrow> Message list" where
  "delivered (WindowMount (Inr (Some rows, None))) = rows"
| "delivered (MessageNotification payload_new) = [payload_new]"
| "delivered _ = []"

text \<open>Classification of effects, for stating what the client writes.\<close>

fun target :: "db_request \<Rightarrow> table" where
  "target (Select t f ord) = t"
| "target (Insert t values) = t"
| "target (Update t values f) = t"
| "target (Upsert t values) = t"
| "target (Delete t f) = t"


fun is_insert :: "db_request \<Rightarrow> bool" where
  "is_insert (Insert t values) = True"
| "is_insert _ = False"

fun is_select :: "db_request \<Rightarrow> bool" where
  "is_select (Select t f ord) = True"
| "is_select _ = False"

fun db_requests :: "effect list \<Rightarrow> db_request list" where
  "db_requests [] = []"
| "db_requests (Db request # effects) = request # db_requests effects"
| "db_requests (other # effects) = db_requests effects"

text \<open>The row that \<open>sendMessage\<close> inserts, for a given content.\<close>

definition message_row :: "props \<Rightarrow> jsstring \<Rightarrow> row" where
  "message_row p c =
     [(''sender_id'', VStr (currentUser_id p)),
      (''receiver_id'', VStr (selectedProfile_user_id p)),
      (''content'', VStr c)]"

text \<open>A sequence of notifications of inserted messages, handled one after the other.\<close>

fun notifications :: "Message list \<Rightarrow> ChatWindow \<Rightarrow> ChatWindow" where
  "notifications [] st = st"
| "notifications (payload_new # rest) st = notifications rest (message_subscription_callback payload_new st)"

section \<open>Example values\<close>

text \<open>Concrete props, messages and states at which the theorems are instantiated.\<close>

definition example_props :: props where
  "example_props = \<lparr>currentUser_id = js ''alice'', selectedProfile_user_id = js ''bob''\<rparr>"

definition example_message_1 :: Message where
  "example_message_1 =
     \<lparr>id_msg = js ''1'', sender_id = js ''alice'', receiver_id = js ''bob'',
      content = js ''x'', created_at = js ''2024-01-01T10:00:00''\<rparr>"

definition example_message_2 :: Message where
  "example_message_2 =
     \<lparr>id_msg = js ''2'', sender_id = js ''bob'', receiver_id = js ''alice'',
      content = toy_header @ [7, 3009, 3010], created_at = js ''2024-01-01T10:00:05''\<rparr>"

definition example_message_3 :: Message where
  "example_message_3 =
     \<lparr>id_msg = js ''3'', sender_id = js ''carol'', receiver_id = js ''alice'',
      content = js ''z'', created_at = js ''2024-01-01T10:00:02''\<rparr>"

definition example_now :: jsstring where
  "example_now = js ''2024-01-01T10:00:10.000Z''"

definition example_window :: ChatWindow where
  "example_window =
     \<lparr>messages = [example_message_1], newMessage = [], loading = False, isTyping = Some False,
      timeouts = []\<rparr>"

section \<open>Properties of the encryption helper\<close>

lemma try_catch_Inl [simp]: "try_catch (Inl e) h = h e"
  by (simp add: try_catch_def)

lemma try_catch_Inr [simp]: "try_catch (Inr v) h = Inr v"
  by (simp add: try_catch_def)

lemma encryptMessage_cases:
  "encryptMessage lib r m =
     (case AES_encrypt lib r m ENCRYPTION_KEY of Inl e \<Rightarrow> Inr m | Inr c \<Rightarrow> Inr c)"
  by (simp add: encryptMessage_def split: sum.splits)

lemma decryptMessage_cases:
  "decryptMessage lib c =
     (case AES_decrypt lib c ENCRYPTION_KEY of Inl e \<Rightarrow> Inr c | Inr d \<Rightarrow> Inr (js_or d c))"
  by (simp add: decryptMessage_def split: sum.splits)

text \<open>
  C3. When the cipher call inside \<open>encryptMessage\<close> or \<open>decryptMessage\<close> throws, the
  function returns its argument unchanged, and neither function ever throws itself.
\<close>

theorem crypto_exceptions_swallowed:
  "(AES_encrypt lib r message ENCRYPTION_KEY = Inl e \<longrightarrow> encryptMessage lib r message = Inr message)
   \<and> (AES_decrypt lib encryptedMessage ENCRYPTION_KEY = Inl e'
        \<longrightarrow> decryptMessage lib encryptedMessage = Inr encryptedMessage)
   \<and> (\<exists>v. encryptMessage lib r message = Inr v)
   \<and> (\<exists>w. decryptMessage lib encryptedMessage = Inr w)"
  by (auto simp: encryptMessage_cases decryptMessage_cases split: sum.splits)

theorem crypto_exceptions_swallowed_witness:
  "AES_encrypt toy_cryptojs 7 [0xD83D] ENCRYPTION_KEY = Inl (JsError ''URI malformed'')
   \<and> encryptMessage toy_cryptojs 7 [0xD83D] = Inr [0xD83D]
   \<and> AES_decrypt toy_cryptojs (js ''hello'') ENCRYPTION_KEY = Inl (JsError ''Malformed UTF-8 data'')
   \<and> decryptMessage toy_cryptojs (js ''hello'') = Inr (js ''hello'')"
  using crypto_exceptions_swallowed [of toy_cryptojs 7 "[0xD83D]" "JsError ''URI malformed''"
      "js ''hello''" "JsError ''Malformed UTF-8 data''"]
  by (simp add: toy_cryptojs_def toy_encrypt_def toy_decrypt_def toy_header_def js_def)

text \<open>
  C9. \<open>decryptMessage\<close> never returns the empty string on a non-empty argument: when the
  underlying decryption yields the empty string it returns its argument instead. In
  particular, decrypting the (non-empty) ciphertext of the empty plaintext gives back the
  ciphertext, not the empty string.
\<close>

theorem decryptMessage_never_empty:
  "(encryptedMessage \<noteq> [] \<longrightarrow> decryptMessage lib encryptedMessage \<noteq> Inr [])
   \<and> (AES_decrypt lib encryptedMessage ENCRYPTION_KEY = Inr []
        \<longrightarrow> decryptMessage lib encryptedMessage = Inr encryptedMessage)
   \<and> (AES_encrypt lib r [] ENCRYPTION_KEY = Inr c \<and> c \<noteq> []
        \<and> AES_decrypt lib c ENCRYPTION_KEY = Inr []
        \<longrightarrow> encryptMessage lib r [] = Inr c \<and> decryptMessage lib c = Inr c
            \<and> decryptMessage lib c \<noteq> Inr [])"
  by (auto simp: encryptMessage_cases decryptMessage_cases js_or_def split: sum.splits)

theorem decryptMessage_never_empty_witness:
  "toy_header @ [7] \<noteq> []
   \<and> AES_encrypt toy_cryptojs 7 [] ENCRYPTION_KEY = Inr (toy_header @ [7])
   \<and> AES_decrypt toy_cryptojs (toy_header @ [7]) ENCRYPTION_KEY = Inr []
   \<and> encryptMessage toy_cryptojs 7 [] = Inr (toy_header @ [7])
   \<and> decryptMessage toy_cryptojs (toy_header @ [7]) = Inr (toy_header @ [7])
   \<and> decryptMessage toy_cryptojs (toy_header @ [7]) \<noteq> Inr []"
  using decryptMessage_never_empty [of "toy_header @ [7]" toy_cryptojs 7 "toy_header @ [7]"]
  by (simp add: toy_cryptojs_def toy_encrypt_def toy_decrypt_def)

text \<open>
  C1, as stated, fails at the empty string: with a library that encrypts the empty string
  to a non-empty ciphertext and decrypts that ciphertext to the empty string again,
  \<open>decryptMessage\<close> of \<open>encryptMessage\<close> of the empty string is the ciphertext.
\<close>

theorem roundtrip_empty_counterexample:
  "encryptMessage toy_cryptojs 7 [] = Inr (toy_header @ [7])
   \<and> AES_decrypt toy_cryptojs (toy_header @ [7]) ENCRYPTION_KEY = Inr []
   \<and> decryptMessage toy_cryptojs (toy_header @ [7]) = Inr (toy_header @ [7])
   \<and> decryptMessage toy_cryptojs (toy_header @ [7]) \<noteq> Inr []"
  by (simp add: encryptMessage_cases decryptMessage_cases js_or_def
      toy_cryptojs_def toy_encrypt_def toy_decrypt_def)

text \<open>
  C1, amended. For every non-empty string that the library encrypts without throwing and
  decrypts back to itself under the fixed key, \<open>decryptMessage\<close> of \<open>encryptMessage\<close> of
  the string is the string.
\<close>

theorem roundtrip_nonempty:
  "message \<noteq> [] \<Longrightarrow> AES_encrypt lib r message ENCRYPTION_KEY = Inr c
   \<Longrightarrow> AES_decrypt lib c ENCRYPTION_KEY = Inr message
   \<Longrightarrow> encryptMessage lib r message = Inr c \<and> decryptMessage lib c = Inr message"
  by (simp add: encryptMessage_cases decryptMessage_cases js_or_def)

theorem roundtrip_nonempty_witness:
  "js ''hi'' \<noteq> []
   \<and> AES_encrypt toy_cryptojs 7 (js ''hi'') ENCRYPTION_KEY = Inr (toy_header @ [7, 3009, 3010])
   \<and> AES_decrypt toy_cryptojs (toy_header @ [7, 3009, 3010]) ENCRYPTION_KEY = Inr (js ''hi'')
   \<and> encryptMessage toy_cryptojs 7 (js ''hi'') = Inr (toy_header @ [7, 3009, 3010])
   \<and> decryptMessage toy_cryptojs (toy_header @ [7, 3009, 3010]) = Inr (js ''hi'')"
  using roundtrip_nonempty [of "js ''hi''" toy_cryptojs 7 "toy_header @ [7, 3009, 3010]"]
  by (simp add: toy_cryptojs_def toy_encrypt_def toy_decrypt_def toy_shift_def toy_header_def
      js_def ENCRYPTION_KEY_def)

section \<open>Properties of the conversation view\<close>

lemma find_id_None: "find (\<lambda>msg. id_msg msg = k) xs = None \<longleftrightarrow> (\<forall>msg \<in> set xs. id_msg msg \<noteq> k)"
  by (auto simp: find_None_iff)

lemma callback_messages:
  "messages (message_subscription_callback n st) =
     (if \<exists>msg \<in> set (messages st). id_msg msg = id_msg n then messages st else messages st @ [n])"
proof (cases "find (\<lambda>msg. id_msg msg = id_msg n) (messages st)")
  case None
  then have "\<not> (\<exists>msg \<in> set (messages st). id_msg msg = id_msg n)"
    by (auto simp: find_None_iff)
  with None show ?thesis
    by (simp add: message_subscription_callback_def Let_def)
next
  case (Some found)
  then have "\<exists>msg \<in> set (messages st). id_msg msg = id_msg n"
    using find_id_None [of "id_msg n" "messages st"] by auto
  with Some show ?thesis
    by (simp add: message_subscription_callback_def Let_def)
qed

lemma callback_distinct:
  "distinct (map id_msg (messages st)) \<Longrightarrow> distinct (map id_msg (messages (message_subscription_callback n st)))"
  by (auto simp: callback_messages)

lemma notifications_distinct:
  "distinct (map id_msg (messages st)) \<Longrightarrow> distinct (map id_msg (messages (notifications ps st)))"
  by (induction ps arbitrary: st) (simp_all add: callback_distinct)

text \<open>
  C4. On a notification of an inserted message, the callback leaves the state unchanged when
  the list already holds a message with that id, and appends the message at the end
  otherwise. Hence a list with pairwise distinct ids keeps pairwise distinct ids through
  any sequence of notifications.
\<close>

theorem notification_no_duplicates:
  "((\<exists>msg \<in> set (messages st). id_msg msg = id_msg payload_new)
      \<longrightarrow> message_subscription_callback payload_new st = st)
   \<and> ((\<forall>msg \<in> set (messages st). id_msg msg \<noteq> id_msg payload_new)
      \<longrightarrow> message_subscription_callback payload_new st = st\<lparr>messages := messages st @ [payload_new]\<rparr>)
   \<and> (distinct (map id_msg (messages st))
      \<longrightarrow> distinct (map id_msg (messages (notifications ps st))))"
proof (intro conjI impI)
  assume "\<exists>msg \<in> set (messages st). id_msg msg = id_msg payload_new"
  then have "find (\<lambda>msg. id_msg msg = id_msg payload_new) (messages st) \<noteq> None"
    by (auto simp: find_None_iff)
  then show "message_subscription_callback payload_new st = st"
    by (auto simp: message_subscription_callback_def Let_def)
next
  assume "\<forall>msg \<in> set (messages st). id_msg msg \<noteq> id_msg payload_new"
  then have "find (\<lambda>msg. id_msg msg = id_msg payload_new) (messages st) = None"
    by (auto simp: find_None_iff)
  then show "message_subscription_callback payload_new st = st\<lparr>messages := messages st @ [payload_new]\<rparr>"
    by (simp add: message_subscription_callback_def Let_def)
next
  assume "distinct (map id_msg (messages st))"
  then show "distinct (map id_msg (messages (notifications ps st)))"
    by (rule notifications_distinct)
qed

theorem notification_no_duplicates_witness:
  "(\<exists>msg \<in> set (messages example_window). id_msg msg = id_msg example_message_1)
   \<and> message_subscription_callback example_message_1 example_window = example_window
   \<and> id_msg example_message_2 \<notin> id_msg ` set (messages example_window)
   \<and> message_subscription_callback example_message_2 example_window =
       example_window\<lparr>messages := [example_message_1, example_message_2]\<rparr>
   \<and> distinct (map id_msg (messages example_window))
   \<and> messages (notifications
         [example_message_2, example_message_1, example_message_2, example_message_2]
         example_window) = [example_message_1, example_message_2]
   \<and> distinct (map id_msg (messages (notifications
         [example_message_2, example_message_1, example_message_2, example_message_2]
         example_window)))"
  using notification_no_duplicates [of example_window example_message_1
      "[example_message_2, example_message_1, example_message_2, example_message_2]"]
    notification_no_duplicates [of example_window example_message_2
      "[example_message_2, example_message_1, example_message_2, example_message_2]"]
  by (simp add: example_window_def example_message_1_def example_message_2_def js_def
      message_subscription_callback_def)

section \<open>Properties of sending\<close>

lemma last_dropWhile: "dropWhile P xs \<noteq> [] \<Longrightarrow> last (dropWhile P xs) = last xs"
  by (induction xs) (auto split: if_splits)

lemma trim_ends:
  assumes "trim s \<noteq> []"
  shows "\<not> isWhiteSpace (hd (trim s))" and "\<not> isWhiteSpace (last (trim s))"
proof -
  let ?ys = "dropWhile isWhiteSpace s"
  let ?zs = "dropWhile isWhiteSpace (rev ?ys)"
  from assms have zs: "?zs \<noteq> []" by (simp add: trim_def)
  then have ys: "?ys \<noteq> []" by (auto simp del: dropWhile_eq_Nil_conv)
  have "hd (trim s) = last ?zs" using zs by (simp add: trim_def hd_rev)
  also have "\<dots> = last (rev ?ys)" using zs by (rule last_dropWhile)
  also have "\<dots> = hd ?ys" using ys by (simp add: last_rev)
  finally show "\<not> isWhiteSpace (hd (trim s))" using ys hd_dropWhile [of isWhiteSpace s] by simp
  have "last (trim s) = hd ?zs" using zs by (simp add: trim_def last_rev)
  then show "\<not> isWhiteSpace (last (trim s))" using zs hd_dropWhile [of isWhiteSpace "rev ?ys"] by simp
qed

lemma sendMessage_empty: "trim (newMessage st) = [] \<Longrightarrow> sendMessage lib r p answer st = (st, [])"
  by (simp add: sendMessage_def)

lemma sendMessage_ok:
  "trim (newMessage st) \<noteq> [] \<Longrightarrow> encryptMessage lib r (trim (newMessage st)) = Inr c \<Longrightarrow>
   sendMessage lib r p (Inr None) st =
     (st\<lparr>newMessage := [], loading := False\<rparr>, [Db (Insert direct_messages (message_row p c))])"
  by (simp add: sendMessage_def Let_def message_row_def)

lemma sendMessage_failed:
  "trim (newMessage st) \<noteq> [] \<Longrightarrow> encryptMessage lib r (trim (newMessage st)) = Inr c \<Longrightarrow>
   answer \<noteq> Inr None \<Longrightarrow>
   sendMessage lib r p answer st =
     (st\<lparr>loading := False\<rparr>,
      [Db (Insert direct_messages (message_row p c)), destructive_toast (js ''Failed to send message'')])"
  by (auto simp: sendMessage_def Let_def message_row_def split: sum.splits option.splits)

lemma encryptMessage_total: "\<exists>c. encryptMessage lib r m = Inr c"
  by (simp add: encryptMessage_cases split: sum.splits)

lemma toasts_destructive [simp]: "toasts (destructive_toast d # effects) = destructive_toast d # toasts effects"
  by (simp add: destructive_toast_def)

lemma db_requests_destructive [simp]: "db_requests (destructive_toast d # effects) = db_requests effects"
  by (simp add: destructive_toast_def)

text \<open>
  C8. When the input trims to the empty string, \<open>sendMessage\<close> returns at once: no
  request, no toast, the state as it was. Otherwise it issues exactly one request, the
  insert of a row whose content is \<open>encryptMessage\<close> of the trimmed input, which neither
  starts nor ends with white space; when the backend reports no error the input is cleared,
  and when it reports one the input is kept and a toast is shown.
\<close>

theorem sendMessage_trims_and_inserts_once:
  "(trim (newMessage st) = [] \<longrightarrow> sendMessage lib r p answer st = (st, []))
   \<and> (trim (newMessage st) \<noteq> [] \<longrightarrow>
        (\<exists>c. encryptMessage lib r (trim (newMessage st)) = Inr c
           \<and> db_requests (snd (sendMessage lib r p answer st)) =
               [Insert direct_messages
                  [(''sender_id'', VStr (currentUser_id p)),
                   (''receiver_id'', VStr (selectedProfile_user_id p)),
                   (''content'', VStr c)]])
        \<and> \<not> isWhiteSpace (hd (trim (newMessage st)))
        \<and> \<not> isWhiteSpace (last (trim (newMessage st)))
        \<and> (answer = Inr None \<longrightarrow>
              fst (sendMessage lib r p answer st) = st\<lparr>newMessage := [], loading := False\<rparr>
              \<and> toasts (snd (sendMessage lib r p answer st)) = [])
        \<and> (answer \<noteq> Inr None \<longrightarrow>
              fst (sendMessage lib r p answer st) = st\<lparr>loading := False\<rparr>
              \<and> toasts (snd (sendMessage lib r p answer st)) =
                  [destructive_toast (js ''Failed to send message'')]))"
proof (intro conjI impI)
  assume "trim (newMessage st) = []"
  then show "sendMessage lib r p answer st = (st, [])" by (rule sendMessage_empty)
next
  assume ne: "trim (newMessage st) \<noteq> []"
  obtain c where c: "encryptMessage lib r (trim (newMessage st)) = Inr c"
    using encryptMessage_total [of lib r "trim (newMessage st)"] by blast
  have "db_requests (snd (sendMessage lib r p answer st)) = [Insert direct_messages (message_row p c)]"
  proof (cases "answer = Inr None")
    case True
    then show ?thesis using sendMessage_ok [OF ne c] by simp
  next
    case False
    then show ?thesis using sendMessage_failed [OF ne c False] by simp
  qed
  with c show "\<exists>c. encryptMessage lib r (trim (newMessage st)) = Inr c
           \<and> db_requests (snd (sendMessage lib r p answer st)) =
               [Insert direct_messages
                  [(''sender_id'', VStr (currentUser_id p)),
                   (''receiver_id'', VStr (selectedProfile_user_id p)),
                   (''content'', VStr c)]]"
    by (auto simp: message_row_def)
  show "\<not> isWhiteSpace (hd (trim (newMessage st)))" using ne by (rule trim_ends)
  show "\<not> isWhiteSpace (last (trim (newMessage st)))" using ne by (rule trim_ends)
  {
    assume ok: "answer = Inr None"
    show "fst (sendMessage lib r p answer st) = st\<lparr>newMessage := [], loading := False\<rparr>"
      using sendMessage_ok [OF ne c] ok by simp
    show "toasts (snd (sendMessage lib r p answer st)) = []"
      using sendMessage_ok [OF ne c] ok by simp
  }
  {
    assume failed: "answer \<noteq> Inr None"
    show "fst (sendMessage lib r p answer st) = st\<lparr>loading := False\<rparr>"
      using sendMessage_failed [OF ne c failed] by simp
    show "toasts (snd (sendMessage lib r p answer st)) = [destructive_toast (js ''Failed to send message'')]"
      using sendMessage_failed [OF ne c failed] by simp
  }
qed

lemmas toy_defs =
  toy_cryptojs_def toy_encrypt_def toy_decrypt_def toy_header_def toy_shift_def ENCRYPTION_KEY_def

lemma trim_hi: "trim (js ''  hi '') = js ''hi''"
  by (simp add: trim_def isWhiteSpace_def js_def)

lemma js_hi_nonempty: "js ''hi'' \<noteq> []"
  by (simp add: js_def)

lemma trim_blank: "trim (js ''   '') = []"
  by (simp add: trim_def isWhiteSpace_def js_def)

lemma toy_encrypt_hi: "encryptMessage toy_cryptojs 7 (js ''hi'') = Inr (toy_header @ [7, 3009, 3010])"
  by (simp add: encryptMessage_cases toy_defs js_def)

theorem sendMessage_trims_and_inserts_once_witness:
  "trim (newMessage (example_window\<lparr>newMessage := js ''   ''\<rparr>)) = []
   \<and> sendMessage toy_cryptojs 7 example_props (Inr None) (example_window\<lparr>newMessage := js ''   ''\<rparr>)
       = (example_window\<lparr>newMessage := js ''   ''\<rparr>, [])
   \<and> trim (newMessage (example_window\<lparr>newMessage := js ''  hi ''\<rparr>)) = js ''hi''
   \<and> js ''hi'' \<noteq> []
   \<and> db_requests (snd (sendMessage toy_cryptojs 7 example_props (Inr None)
         (example_window\<lparr>newMessage := js ''  hi ''\<rparr>))) =
       [Insert direct_messages
          [(''sender_id'', VStr (js ''alice'')), (''receiver_id'', VStr (js ''bob'')),
           (''content'', VStr (toy_header @ [7, 3009, 3010]))]]
   \<and> fst (sendMessage toy_cryptojs 7 example_props (Inr None)
         (example_window\<lparr>newMessage := js ''  hi ''\<rparr>)) = example_window
   \<and> (Inr (Some (JsError ''denied'')) :: response) \<noteq> Inr None
   \<and> fst (sendMessage toy_cryptojs 7 example_props (Inr (Some (JsError ''denied'')))
         (example_window\<lparr>newMessage := js ''  hi ''\<rparr>)) = example_window\<lparr>newMessage := js ''  hi ''\<rparr>
   \<and> toasts (snd (sendMessage toy_cryptojs 7 example_props (Inr (Some (JsError ''denied'')))
         (example_window\<lparr>newMessage := js ''  hi ''\<rparr>))) =
       [destructive_toast (js ''Failed to send message'')]"
  using sendMessage_trims_and_inserts_once [of "example_window\<lparr>newMessage := js ''   ''\<rparr>"
      toy_cryptojs 7 example_props "Inr None"]
    sendMessage_trims_and_inserts_once [of "example_window\<lparr>newMessage := js ''  hi ''\<rparr>"
      toy_cryptojs 7 example_props "Inr None"]
    sendMessage_trims_and_inserts_once [of "example_window\<lparr>newMessage := js ''  hi ''\<rparr>"
      toy_cryptojs 7 example_props "Inr (Some (JsError ''denied''))"]
  by (simp add: trim_hi trim_blank js_hi_nonempty toy_encrypt_hi example_window_def example_props_def)

text \<open>
  C2. Every row that \<open>sendMessage\<close> inserts goes to \<open>direct_messages\<close> and carries as
  content the result of \<open>encryptMessage\<close> on the trimmed input. When the cipher call
  throws, the trimmed plaintext itself is inserted and, the insert succeeding, nothing
  else happens: no toast. For a cipher whose ciphertext always differs from its plaintext,
  that is the only way for the plaintext to be inserted.
\<close>

theorem sendMessage_persists_encrypted:
  "(Db (Insert t v) \<in> set (snd (sendMessage lib r p answer st)) \<longrightarrow>
      t = direct_messages
      \<and> (\<exists>c. encryptMessage lib r (trim (newMessage st)) = Inr c
            \<and> v = [(''sender_id'', VStr (currentUser_id p)),
                   (''receiver_id'', VStr (selectedProfile_user_id p)),
                   (''content'', VStr c)]))
   \<and> (trim (newMessage st) \<noteq> [] \<and> AES_encrypt lib r (trim (newMessage st)) ENCRYPTION_KEY = Inl e \<longrightarrow>
        snd (sendMessage lib r p (Inr None) st) =
          [Db (Insert direct_messages
                 [(''sender_id'', VStr (currentUser_id p)),
                  (''receiver_id'', VStr (selectedProfile_user_id p)),
                  (''content'', VStr (trim (newMessage st)))])])
   \<and> ((\<forall>c. AES_encrypt lib r (trim (newMessage st)) ENCRYPTION_KEY = Inr c \<longrightarrow> c \<noteq> trim (newMessage st))
        \<and> Db (Insert t v) \<in> set (snd (sendMessage lib r p answer st))
        \<and> map_of v ''content'' = Some (VStr (trim (newMessage st))) \<longrightarrow>
        (\<exists>thrown. AES_encrypt lib r (trim (newMessage st)) ENCRYPTION_KEY = Inl thrown))"
proof -
  obtain c where c: "encryptMessage lib r (trim (newMessage st)) = Inr c"
    using encryptMessage_total [of lib r "trim (newMessage st)"] by blast
  have ins: "t = direct_messages \<and> v = message_row p c"
    if "Db (Insert t v) \<in> set (snd (sendMessage lib r p answer st))"
  proof (cases "trim (newMessage st) = []")
    case True
    with that show ?thesis by (simp add: sendMessage_empty)
  next
    case ne: False
    show ?thesis
    proof (cases "answer = Inr None")
      case True
      with that sendMessage_ok [OF ne c] show ?thesis by simp
    next
      case False
      with that sendMessage_failed [OF ne c False] show ?thesis
        by (simp add: destructive_toast_def)
    qed
  qed
  have first: "Db (Insert t v) \<in> set (snd (sendMessage lib r p answer st)) \<longrightarrow>
      t = direct_messages
      \<and> (\<exists>c. encryptMessage lib r (trim (newMessage st)) = Inr c
            \<and> v = [(''sender_id'', VStr (currentUser_id p)),
                   (''receiver_id'', VStr (selectedProfile_user_id p)),
                   (''content'', VStr c)])"
    using ins c by (auto simp: message_row_def)
  have second: "trim (newMessage st) \<noteq> [] \<and> AES_encrypt lib r (trim (newMessage st)) ENCRYPTION_KEY = Inl e \<longrightarrow>
        snd (sendMessage lib r p (Inr None) st) =
          [Db (Insert direct_messages
                 [(''sender_id'', VStr (currentUser_id p)),
                  (''receiver_id'', VStr (selectedProfile_user_id p)),
                  (''content'', VStr (trim (newMessage st)))])]"
  proof (intro impI, elim conjE)
    assume ne: "trim (newMessage st) \<noteq> []"
      and "AES_encrypt lib r (trim (newMessage st)) ENCRYPTION_KEY = Inl e"
    then have "encryptMessage lib r (trim (newMessage st)) = Inr (trim (newMessage st))"
      by (simp add: encryptMessage_cases)
    from sendMessage_ok [OF ne this] show "snd (sendMessage lib r p (Inr None) st) =
          [Db (Insert direct_messages
                 [(''sender_id'', VStr (currentUser_id p)),
                  (''receiver_id'', VStr (selectedProfile_user_id p)),
                  (''content'', VStr (trim (newMessage st)))])]"
      by (simp add: message_row_def)
  qed
  have third: "(\<forall>c. AES_encrypt lib r (trim (newMessage st)) ENCRYPTION_KEY = Inr c \<longrightarrow> c \<noteq> trim (newMessage st))
        \<and> Db (Insert t v) \<in> set (snd (sendMessage lib r p answer st))
        \<and> map_of v ''content'' = Some (VStr (trim (newMessage st))) \<longrightarrow>
        (\<exists>thrown. AES_encrypt lib r (trim (newMessage st)) ENCRYPTION_KEY = Inl thrown)"
  proof (intro impI, elim conjE)
    assume differs: "\<forall>c. AES_encrypt lib r (trim (newMessage st)) ENCRYPTION_KEY = Inr c \<longrightarrow> c \<noteq> trim (newMessage st)"
      and "Db (Insert t v) \<in> set (snd (sendMessage lib r p answer st))"
      and plain: "map_of v ''content'' = Some (VStr (trim (newMessage st)))"
    then have "v = message_row p c" using ins by simp
    with plain have "c = trim (newMessage st)" by (simp add: message_row_def)
    with c differs show "\<exists>thrown. AES_encrypt lib r (trim (newMessage st)) ENCRYPTION_KEY = Inl thrown"
      by (cases "AES_encrypt lib r (trim (newMessage st)) ENCRYPTION_KEY")
        (auto simp: encryptMessage_cases)
  qed
  from first second third show ?thesis by blast
qed

lemma trim_surrogate: "trim [0xD83D] = [0xD83D]"
  by (simp add: trim_def isWhiteSpace_def)

lemma toy_encrypt_surrogate:
  "AES_encrypt toy_cryptojs 7 [0xD83D] ENCRYPTION_KEY = Inl (JsError ''URI malformed'')"
  by (simp add: toy_cryptojs_def toy_encrypt_def)

lemma toy_encryptMessage_surrogate: "encryptMessage toy_cryptojs 7 [0xD83D] = Inr [0xD83D]"
  by (simp add: encryptMessage_cases toy_encrypt_surrogate)

lemma sendMessage_example_hi:
  "sendMessage toy_cryptojs 7 example_props (Inr None) (example_window\<lparr>newMessage := js ''  hi ''\<rparr>) =
     (example_window,
      [Db (Insert direct_messages (message_row example_props (toy_header @ [7, 3009, 3010])))])"
  using sendMessage_ok [of "example_window\<lparr>newMessage := js ''  hi ''\<rparr>" toy_cryptojs 7
      "toy_header @ [7, 3009, 3010]" example_props]
  by (simp add: trim_hi js_hi_nonempty toy_encrypt_hi example_window_def)

lemma sendMessage_example_surrogate:
  "sendMessage toy_cryptojs 7 example_props (Inr None) (example_window\<lparr>newMessage := [0xD83D]\<rparr>) =
     (example_window, [Db (Insert direct_messages (message_row example_props [0xD83D]))])"
  using sendMessage_ok [of "example_window\<lparr>newMessage := [0xD83D]\<rparr>" toy_cryptojs 7
      "[0xD83D]" example_props]
  by (simp add: trim_surrogate toy_encryptMessage_surrogate example_window_def)

theorem sendMessage_persists_encrypted_witness:
  "Db (Insert direct_messages (message_row example_props (toy_header @ [7, 3009, 3010])))
     \<in> set (snd (sendMessage toy_cryptojs 7 example_props (Inr None)
                   (example_window\<lparr>newMessage := js ''  hi ''\<rparr>)))
   \<and> encryptMessage toy_cryptojs 7 (trim (newMessage (example_window\<lparr>newMessage := js ''  hi ''\<rparr>)))
       = Inr (toy_header @ [7, 3009, 3010])
   \<and> trim (newMessage (example_window\<lparr>newMessage := [0xD83D]\<rparr>)) \<noteq> []
   \<and> AES_encrypt toy_cryptojs 7 (trim (newMessage (example_window\<lparr>newMessage := [0xD83D]\<rparr>)))
         ENCRYPTION_KEY = Inl (JsError ''URI malformed'')
   \<and> snd (sendMessage toy_cryptojs 7 example_props (Inr None) (example_window\<lparr>newMessage := [0xD83D]\<rparr>))
       = [Db (Insert direct_messages (message_row example_props [0xD83D]))]
   \<and> map_of (message_row example_props [0xD83D]) ''content''
       = Some (VStr (trim (newMessage (example_window\<lparr>newMessage := [0xD83D]\<rparr>))))"
  using sendMessage_persists_encrypted [where t = direct_messages
      and v = "message_row example_props (toy_header @ [7, 3009, 3010])"
      and lib = toy_cryptojs and r = 7 and p = example_props and answer = "Inr None"
      and st = "example_window\<lparr>newMessage := js ''  hi ''\<rparr>"]
    sendMessage_persists_encrypted [where t = direct_messages
      and v = "message_row example_props [0xD83D]"
      and lib = toy_cryptojs and r = 7 and p = example_props and answer = "Inr None"
      and st = "example_window\<lparr>newMessage := [0xD83D]\<rparr>" and e = "JsError ''URI malformed''"]
  by (simp add: trim_hi trim_surrogate toy_encrypt_hi toy_encrypt_surrogate
      sendMessage_example_hi sendMessage_example_surrogate message_row_def)

section \<open>Properties of fetching\<close>

lemma satisfies_conversation:
  "satisfies (conversation_filter p) =
     (\<lambda>m. sender_id m = currentUser_id p \<and> receiver_id m = selectedProfile_user_id p
        \<or> sender_id m = selectedProfile_user_id p \<and> receiver_id m = currentUser_id p)"
  by (rule ext) (simp add: conversation_filter_def)

lemma fetchMessages_request:
  "db_requests (snd (fetchMessages p answer st)) =
     [Select direct_messages (conversation_filter p) (OrderBy ''created_at'' True)]"
  by (auto simp: fetchMessages_def Let_def split: sum.splits option.splits prod.splits)

lemma backend_select_conversation:
  "backend_select key stored (Select direct_messages (conversation_filter p) (OrderBy ''created_at'' True)) =
     Inr (Some (sort_key (\<lambda>m. key ''created_at'' (created_at m))
                  (filter (\<lambda>m. sender_id m = currentUser_id p \<and> receiver_id m = selectedProfile_user_id p
                              \<or> sender_id m = selectedProfile_user_id p \<and> receiver_id m = currentUser_id p)
                     stored)),
          None)"
  by (simp add: satisfies_conversation)

lemma fetchMessages_rows:
  "fetchMessages p (Inr (Some rows, None)) st =
     (st\<lparr>messages := rows\<rparr>,
      [Db (Select direct_messages (conversation_filter p) (OrderBy ''created_at'' True))])"
  by (simp add: fetchMessages_def)

lemma fetchMessages_caught:
  "answer = Inl thrown \<or> answer = Inr (data, Some error) \<Longrightarrow>
   fetchMessages p answer st =
     (st, [Db (Select direct_messages (conversation_filter p) (OrderBy ''created_at'' True)),
           Toast (js ''Error'') (js ''Failed to load messages'') (Some (js ''destructive''))])"
  by (auto simp: fetchMessages_def destructive_toast_def)

text \<open>
  C10. Whatever the answer, \<open>fetchMessages\<close> issues one request: the select on
  \<open>direct_messages\<close> of the rows sent by the current user to the selected one or by the
  selected user to the current one, ordered by \<open>created_at\<close> ascending. When the answer is
  the backend's answer to that request, the message list becomes exactly those stored rows
  sorted by the instant of \<open>created_at\<close>, oldest first, and nothing else happens. In
  general a successful answer replaces the list by its rows and shows no toast. When the call
  throws or the answer carries an error, the state is unchanged and the toast titled Error,
  described Failed to load messages, of variant destructive, is shown.
\<close>

theorem fetchMessages_ordered:
  "db_requests (snd (fetchMessages p answer st)) =
      [Select direct_messages
         (FOr (FAnd (FEq ''sender_id'' (currentUser_id p))
                    (FEq ''receiver_id'' (selectedProfile_user_id p)))
              (FAnd (FEq ''sender_id'' (selectedProfile_user_id p))
                    (FEq ''receiver_id'' (currentUser_id p))))
         (OrderBy ''created_at'' True)]
   \<and> (db_requests (snd (fetchMessages p answer st)) = [request]
        \<and> answer = backend_select key stored request \<longrightarrow>
        messages (fst (fetchMessages p answer st)) =
          sort_key (\<lambda>m. key ''created_at'' (created_at m))
            (filter (\<lambda>m. sender_id m = currentUser_id p \<and> receiver_id m = selectedProfile_user_id p
                        \<or> sender_id m = selectedProfile_user_id p \<and> receiver_id m = currentUser_id p)
               stored)
        \<and> sorted (map (\<lambda>m. key ''created_at'' (created_at m))
                    (messages (fst (fetchMessages p answer st))))
        \<and> snd (fetchMessages p answer st) = [Db request])
   \<and> (answer = Inr (Some rows, None) \<longrightarrow>
        fst (fetchMessages p answer st) = st\<lparr>messages := rows\<rparr>
        \<and> toasts (snd (fetchMessages p answer st)) = [])
   \<and> (answer = Inl thrown \<or> answer = Inr (data, Some error) \<longrightarrow>
        fst (fetchMessages p answer st) = st
        \<and> snd (fetchMessages p answer st) =
            [Db (Select direct_messages
                   (FOr (FAnd (FEq ''sender_id'' (currentUser_id p))
                              (FEq ''receiver_id'' (selectedProfile_user_id p)))
                        (FAnd (FEq ''sender_id'' (selectedProfile_user_id p))
                              (FEq ''receiver_id'' (currentUser_id p))))
                   (OrderBy ''created_at'' True)),
             Toast (js ''Error'') (js ''Failed to load messages'') (Some (js ''destructive''))])"
proof (intro conjI impI)
  show "db_requests (snd (fetchMessages p answer st)) =
      [Select direct_messages
         (FOr (FAnd (FEq ''sender_id'' (currentUser_id p))
                    (FEq ''receiver_id'' (selectedProfile_user_id p)))
              (FAnd (FEq ''sender_id'' (selectedProfile_user_id p))
                    (FEq ''receiver_id'' (currentUser_id p))))
         (OrderBy ''created_at'' True)]"
    by (simp add: fetchMessages_request conversation_filter_def)
next
  let ?rows = "sort_key (\<lambda>m. key ''created_at'' (created_at m))
            (filter (\<lambda>m. sender_id m = currentUser_id p \<and> receiver_id m = selectedProfile_user_id p
                        \<or> sender_id m = selectedProfile_user_id p \<and> receiver_id m = currentUser_id p)
               stored)"
  assume asm: "db_requests (snd (fetchMessages p answer st)) = [request]
        \<and> answer = backend_select key stored request"
  then have request: "request = Select direct_messages (conversation_filter p) (OrderBy ''created_at'' True)"
    by (simp add: fetchMessages_request)
  with asm have answer: "answer = Inr (Some ?rows, None)"
    by (simp only: backend_select_conversation)
  show "messages (fst (fetchMessages p answer st)) = ?rows"
    by (simp add: answer fetchMessages_rows)
  then show "sorted (map (\<lambda>m. key ''created_at'' (created_at m))
                    (messages (fst (fetchMessages p answer st))))"
    by (simp only: sorted_sort_key)
  show "snd (fetchMessages p answer st) = [Db request]"
    by (simp add: answer fetchMessages_rows request)
next
  assume "answer = Inr (Some rows, None)"
  then show "fst (fetchMessages p answer st) = st\<lparr>messages := rows\<rparr>"
    and "toasts (snd (fetchMessages p answer st)) = []"
    by (simp_all add: fetchMessages_rows)
next
  assume "answer = Inl thrown \<or> answer = Inr (data, Some error)"
  from fetchMessages_caught [OF this, of p st]
  show "fst (fetchMessages p answer st) = st"
    and "snd (fetchMessages p answer st) =
            [Db (Select direct_messages
                   (FOr (FAnd (FEq ''sender_id'' (currentUser_id p))
                              (FEq ''receiver_id'' (selectedProfile_user_id p)))
                        (FAnd (FEq ''sender_id'' (selectedProfile_user_id p))
                              (FEq ''receiver_id'' (currentUser_id p))))
                   (OrderBy ''created_at'' True)),
             Toast (js ''Error'') (js ''Failed to load messages'') (Some (js ''destructive''))]"
    by (simp_all add: conversation_filter_def)
qed


theorem fetchMessages_ordered_witness:
  "db_requests (snd (fetchMessages example_props
       (Inr (Some [example_message_1, example_message_2], None))
       (example_window\<lparr>messages := []\<rparr>))) =
     [Select direct_messages
        (FOr (FAnd (FEq ''sender_id'' (js ''alice'')) (FEq ''receiver_id'' (js ''bob'')))
             (FAnd (FEq ''sender_id'' (js ''bob'')) (FEq ''receiver_id'' (js ''alice''))))
        (OrderBy ''created_at'' True)]
   \<and> backend_select (\<lambda>col v. v) [example_message_2, example_message_3, example_message_1]
       (Select direct_messages
          (FOr (FAnd (FEq ''sender_id'' (js ''alice'')) (FEq ''receiver_id'' (js ''bob'')))
               (FAnd (FEq ''sender_id'' (js ''bob'')) (FEq ''receiver_id'' (js ''alice''))))
          (OrderBy ''created_at'' True)) =
       Inr (Some [example_message_1, example_message_2], None)
   \<and> messages (fst (fetchMessages example_props
           (Inr (Some [example_message_1, example_message_2], None))
           (example_window\<lparr>messages := []\<rparr>))) = [example_message_1, example_message_2]
   \<and> sorted (map created_at [example_message_1, example_message_2])
   \<and> toasts (snd (fetchMessages example_props
           (Inr (Some [example_message_1, example_message_2], None))
           (example_window\<lparr>messages := []\<rparr>))) = []
   \<and> fetchMessages example_props (Inr (None, Some (JsError ''denied''))) example_window =
       (example_window,
        [Db (Select direct_messages
               (FOr (FAnd (FEq ''sender_id'' (js ''alice'')) (FEq ''receiver_id'' (js ''bob'')))
                    (FAnd (FEq ''sender_id'' (js ''bob'')) (FEq ''receiver_id'' (js ''alice''))))
               (OrderBy ''created_at'' True)),
         Toast (js ''Error'') (js ''Failed to load messages'') (Some (js ''destructive''))])
   \<and> fetchMessages example_props (Inl (JsError ''network'')) example_window =
       (example_window,
        [Db (Select direct_messages
               (FOr (FAnd (FEq ''sender_id'' (js ''alice'')) (FEq ''receiver_id'' (js ''bob'')))
                    (FAnd (FEq ''sender_id'' (js ''bob'')) (FEq ''receiver_id'' (js ''alice''))))
               (OrderBy ''created_at'' True)),
         Toast (js ''Error'') (js ''Failed to load messages'') (Some (js ''destructive''))])"
  using fetchMessages_ordered [where p = example_props
        and answer = "Inr (Some [example_message_1, example_message_2], None)"
        and st = "example_window\<lparr>messages := []\<rparr>"
        and request = "Select direct_messages
          (FOr (FAnd (FEq ''sender_id'' (js ''alice'')) (FEq ''receiver_id'' (js ''bob'')))
               (FAnd (FEq ''sender_id'' (js ''bob'')) (FEq ''receiver_id'' (js ''alice''))))
          (OrderBy ''created_at'' True)"
        and key = "\<lambda>col v. v"
        and stored = "[example_message_2, example_message_3, example_message_1]"
        and rows = "[example_message_1, example_message_2]"
        and thrown = "JsError ''network''" and data = None and error = "JsError ''denied''"]
    fetchMessages_ordered [where p = example_props
        and answer = "Inr (None, Some (JsError ''denied''))" and st = example_window
        and request = "Select direct_messages (FEq [] []) (OrderBy [] True)"
        and key = "\<lambda>col v. v" and stored = "[]" and rows = "[]"
        and thrown = "JsError ''network''" and data = None and error = "JsError ''denied''"]
    fetchMessages_ordered [where p = example_props
        and answer = "Inl (JsError ''network'')" and st = example_window
        and request = "Select direct_messages (FEq [] []) (OrderBy [] True)"
        and key = "\<lambda>col v. v" and stored = "[]" and rows = "[]"
        and thrown = "JsError ''network''" and data = None and error = "JsError ''denied''"]
  by (simp add: fetchMessages_def destructive_toast_def conversation_filter_def example_props_def
      example_message_1_def example_message_2_def example_message_3_def js_def)

section \<open>Properties of the client as a whole\<close>

lemma db_requests_append: "db_requests (xs @ ys) = db_requests xs @ db_requests ys"
  by (induction xs rule: db_requests.induct) simp_all

lemma db_requests_sent: "db_requests (sent effects) = db_requests effects"
  by (induction effects rule: sent.induct) simp_all

lemma db_requests_toasts: "db_requests (toasts effects) = []"
  by (induction effects rule: toasts.induct) simp_all

lemma db_requests_sendMessage:
  "db_requests (snd (sendMessage lib r p answer st)) =
     (if trim (newMessage st) = [] then []
      else [Insert direct_messages (message_row p (projr (encryptMessage lib r (trim (newMessage st)))))])"
proof (cases "trim (newMessage st) = []")
  case True
  then show ?thesis by (simp add: sendMessage_empty)
next
  case ne: False
  obtain c where c: "encryptMessage lib r (trim (newMessage st)) = Inr c"
    using encryptMessage_total [of lib r "trim (newMessage st)"] by blast
  show ?thesis
  proof (cases "answer = Inr None")
    case True
    with ne c sendMessage_ok [OF ne c] show ?thesis by simp
  next
    case False
    with ne c sendMessage_failed [OF ne c False] show ?thesis by simp
  qed
qed

lemma messages_sendMessage: "messages (fst (sendMessage lib r p answer st)) = messages st"
  by (auto simp: sendMessage_def Let_def split: sum.splits option.splits)

lemma db_requests_step:
  "db_requests (snd (client_step lib p now ev st)) =
     (case ev of
        LayoutMount \<Rightarrow> db_requests (updateUserStatus (currentUser_id p) now (js ''online''))
      | BeforeUnload \<Rightarrow> db_requests (updateUserStatus (currentUser_id p) now (js ''offline''))
      | VisibilityChange hidden \<Rightarrow>
          db_requests (updateUserStatus (currentUser_id p) now (if hidden then js ''away'' else js ''online''))
      | LayoutCleanup \<Rightarrow> db_requests (updateUserStatus (currentUser_id p) now (js ''offline''))
      | WindowMount answer \<Rightarrow>
          [Select direct_messages (conversation_filter p) (OrderBy ''created_at'' True)]
      | SendClick r answer \<Rightarrow> db_requests (snd (sendMessage lib r p answer st))
      | KeyPress r key shiftKey answer \<Rightarrow>
          (if key = js ''Enter'' \<and> \<not> shiftKey
           then db_requests (snd (sendMessage lib r p answer st)) @ db_requests (updateTypingStatus p False)
           else [])
      | InputChange v \<Rightarrow> db_requests (updateTypingStatus p (0 < length v))
      | TimeoutFires i \<Rightarrow>
          (if i < length (timeouts st) then db_requests (timeout_callback p (timeouts st ! i)) else [])
      | SidebarFetch answer \<Rightarrow>
          [Select profiles (FNeq ''user_id'' (currentUser_id p)) (OrderBy ''last_seen'' False)]
      | SaveProfile displayName bio a1 a2 \<Rightarrow>
          [Update profiles [(''display_name'', VStr displayName), (''bio'', VStr bio)]
             (FEq ''user_id'' (currentUser_id p))]
      | _ \<Rightarrow> [])"
proof (cases ev)
  case (WindowMount answer)
  then show ?thesis
    by (auto simp: fetchMessages_def Let_def split: sum.splits option.splits prod.splits)
next
  case (KeyPress r key shiftKey answer)
  then show ?thesis
    by (simp add: handleKeyPress_def db_requests_append db_requests_sent db_requests_toasts
        updateTypingStatus_def split: prod.splits)
next
  case (SidebarFetch answer)
  then show ?thesis
    by (auto simp: fetchProfiles_def Let_def split: sum.splits option.splits)
next
  case (SaveProfile displayName bio a1 a2)
  then show ?thesis
    by (auto simp: handleSaveProfile_def Let_def destructive_toast_def split: sum.splits option.splits)
next
  case (AuthSignUp email password username displayName answer)
  then show ?thesis
    by (auto simp: handleSignUp_def Let_def destructive_toast_def split: sum.splits option.splits js_error.splits)
next
  case (AuthSignIn email password answer)
  then show ?thesis
    by (auto simp: handleSignIn_def Let_def destructive_toast_def split: sum.splits option.splits js_error.splits)
qed (simp_all add: mount_effect_def handleBeforeUnload_def handleVisibilityChange_def mount_cleanup_def
    presence_subscribe_callback_def handleInputChange_def timeout_fires_def
    ChatSidebar_handleSignOut_def SettingsModal_handleSignOut_def)


lemma messages_step:
  "messages (fst (client_step lib p now ev st)) =
     (case ev of
        WindowMount answer \<Rightarrow>
          (case answer of
             Inr (data, None) \<Rightarrow> (case data of Some rows \<Rightarrow> rows | None \<Rightarrow> [])
           | _ \<Rightarrow> messages st)
      | MessageNotification payload_new \<Rightarrow>
          (if \<exists>msg \<in> set (messages st). id_msg msg = id_msg payload_new then messages st
           else messages st @ [payload_new])
      | _ \<Rightarrow> messages st)"
proof (cases ev)
  case (WindowMount answer)
  then show ?thesis
    by (auto simp: fetchMessages_def Let_def split: sum.splits option.splits prod.splits)
next
  case (MessageNotification payload_new)
  then show ?thesis by (simp add: callback_messages)
next
  case (TypingNotification payload_new)
  then show ?thesis by (simp add: typing_subscription_callback_def split: option.splits)
next
  case (SendClick r answer)
  then show ?thesis by (simp add: messages_sendMessage)
next
  case (KeyPress r key shiftKey answer)
  then show ?thesis
    using messages_sendMessage [of lib r p answer st]
    by (cases "sendMessage lib r p answer st") (auto simp: handleKeyPress_def)
qed (simp_all add: handleInputChange_def timeout_fires_def)

lemma messages_step_subset:
  "set (messages (fst (client_step lib p now ev st))) \<subseteq> set (messages st) \<union> set (delivered ev)"
  unfolding messages_step
  by (auto split: client_event.splits sum.splits option.splits prod.splits)

lemma requests_on_messages:
  assumes "request \<in> set (db_requests (snd (client_step lib p now ev st)))"
    and "target request = direct_messages"
  shows "request = Select direct_messages (conversation_filter p) (OrderBy ''created_at'' True)
    \<or> (\<exists>r. request = Insert direct_messages
              (message_row p (projr (encryptMessage lib r (trim (newMessage st))))))"
  using assms unfolding db_requests_step
  by (cases ev)
    (auto simp: db_requests_sendMessage updateUserStatus_def updateTypingStatus_def
      timeout_callback_def split: if_splits)

text \<open>
  C6. Whatever the event, every request the client sends about \<open>direct_messages\<close> is an
  insert or a select: never an update, an upsert or a delete. Every row it inserts there
  carries \<open>encryptMessage\<close> of the trimmed input as content. The messages held in the state
  after the event are messages held before it or rows the backend delivered with it, as
  delivered; decryption happens in rendering, which maps \<open>decryptMessage\<close> over the
  contents and returns no state.
\<close>

theorem direct_messages_insert_only:
  "(\<forall>request \<in> set (db_requests (snd (client_step lib p now ev st))).
      target request = direct_messages \<longrightarrow> is_insert request \<or> is_select request)
   \<and> (\<forall>v. Insert direct_messages v \<in> set (db_requests (snd (client_step lib p now ev st))) \<longrightarrow>
        (\<exists>r c. encryptMessage lib r (trim (newMessage st)) = Inr c \<and> v = message_row p c))
   \<and> set (messages (fst (client_step lib p now ev st))) \<subseteq> set (messages st) \<union> set (delivered ev)
   \<and> render_messages lib (fst (client_step lib p now ev st)) =
       map (\<lambda>message. decryptMessage lib (content message)) (messages (fst (client_step lib p now ev st)))"
proof (intro conjI ballI allI impI)
  fix request
  assume "request \<in> set (db_requests (snd (client_step lib p now ev st)))"
    and "target request = direct_messages"
  then show "is_insert request \<or> is_select request"
    using requests_on_messages [of request lib p now ev st] by auto
next
  fix v
  assume ins: "Insert direct_messages v \<in> set (db_requests (snd (client_step lib p now ev st)))"
  then obtain r where "v = message_row p (projr (encryptMessage lib r (trim (newMessage st))))"
    using requests_on_messages [of "Insert direct_messages v" lib p now ev st] by auto
  moreover obtain c where "encryptMessage lib r (trim (newMessage st)) = Inr c"
    using encryptMessage_total [of lib r "trim (newMessage st)"] by blast
  ultimately show "\<exists>r c. encryptMessage lib r (trim (newMessage st)) = Inr c \<and> v = message_row p c"
    by auto
next
  show "set (messages (fst (client_step lib p now ev st))) \<subseteq> set (messages st) \<union> set (delivered ev)"
    by (rule messages_step_subset)
next
  show "render_messages lib (fst (client_step lib p now ev st)) =
       map (\<lambda>message. decryptMessage lib (content message)) (messages (fst (client_step lib p now ev st)))"
    by (simp add: render_messages_def)
qed



lemma client_step_example_send:
  "client_step toy_cryptojs example_props example_now (SendClick 7 (Inr None))
     (example_window\<lparr>newMessage := js ''  hi ''\<rparr>) =
   (example_window,
    [Db (Insert direct_messages (message_row example_props (toy_header @ [7, 3009, 3010])))])"
  by (simp add: sendMessage_example_hi)

lemma render_example:
  "render_messages toy_cryptojs (example_window\<lparr>messages := [example_message_1, example_message_2]\<rparr>) =
     [Inr (js ''x''), Inr (js ''hi'')]"
  by (simp add: render_messages_def decryptMessage_cases js_or_def example_window_def
      example_message_1_def example_message_2_def toy_defs js_def)

lemma client_step_example_notification:
  "client_step toy_cryptojs example_props example_now (MessageNotification example_message_2) example_window =
     (example_window\<lparr>messages := [example_message_1, example_message_2]\<rparr>, [])"
  by (simp add: message_subscription_callback_def example_window_def example_message_1_def
      example_message_2_def js_def)

theorem direct_messages_insert_only_witness:
  "Insert direct_messages (message_row example_props (toy_header @ [7, 3009, 3010]))
     \<in> set (db_requests (snd (client_step toy_cryptojs example_props example_now
                (SendClick 7 (Inr None)) (example_window\<lparr>newMessage := js ''  hi ''\<rparr>))))
   \<and> target (Insert direct_messages (message_row example_props (toy_header @ [7, 3009, 3010])))
       = direct_messages
   \<and> is_insert (Insert direct_messages (message_row example_props (toy_header @ [7, 3009, 3010])))
   \<and> encryptMessage toy_cryptojs 7 (trim (newMessage (example_window\<lparr>newMessage := js ''  hi ''\<rparr>)))
       = Inr (toy_header @ [7, 3009, 3010])
   \<and> messages (fst (client_step toy_cryptojs example_props example_now
         (MessageNotification example_message_2) example_window))
       = [example_message_1, example_message_2]
   \<and> render_messages toy_cryptojs (fst (client_step toy_cryptojs example_props example_now
         (MessageNotification example_message_2) example_window))
       = [Inr (js ''x''), Inr (js ''hi'')]"
  using direct_messages_insert_only [of toy_cryptojs example_props example_now
      "SendClick 7 (Inr None)" "example_window\<lparr>newMessage := js ''  hi ''\<rparr>"]
    direct_messages_insert_only [of toy_cryptojs example_props example_now
      "MessageNotification example_message_2" example_window]
  by (simp add: client_step_example_send client_step_example_notification trim_hi toy_encrypt_hi
      render_example del: client_step.simps)


section \<open>The typing indicator\<close>

text \<open>
  \<open>handleInputChange\<close> upserts the flag (true exactly for a non-empty input) and appends one
  timeout of 3000 ms to those pending. When that timeout fires, its callback compares the
  input with the \<open>newMessage\<close> it captured, the state before the change, and clears the
  flag only when the two are equal.
\<close>

lemma handleInputChange_schedules:
  "handleInputChange p v st =
     (st\<lparr>newMessage := v,
         timeouts := timeouts st @ [\<lparr>delay = 3000, value_captured = v, newMessage_captured = newMessage st\<rparr>]\<rparr>,
      updateTypingStatus p (v \<noteq> []))"
  by (simp add: handleInputChange_def)

lemma scheduled_timeout_fires:
  "timeout_fires p (length (timeouts st)) (fst (handleInputChange p v st)) =
     (st\<lparr>newMessage := v\<rparr>, if v = newMessage st then updateTypingStatus p False else [])"
  by (simp add: handleInputChange_def timeout_fires_def timeout_callback_def)

text \<open>
  C5, at a concrete input. The input field is empty and the user types the letter h: the
  flag is upserted to true and one timeout is scheduled. No further input occurs and the
  timeout fires: it issues no request, so the flag is not cleared.
\<close>

theorem typing_flag_timeout_stale:
  "handleInputChange example_props (js ''h'') example_window =
     (example_window\<lparr>newMessage := js ''h'',
        timeouts := [\<lparr>delay = 3000, value_captured = js ''h'', newMessage_captured = []\<rparr>]\<rparr>,
      updateTypingStatus example_props True)
   \<and> timeout_fires example_props 0 (fst (handleInputChange example_props (js ''h'') example_window)) =
     (example_window\<lparr>newMessage := js ''h''\<rparr>, [])"
  by (simp add: handleInputChange_def timeout_fires_def timeout_callback_def example_window_def js_def)


end
